theory Spec2Isabelle
  imports Complex_Main "HOL-Library.AList" "HOL-Library.Log_Nat"
begin

section \<open>Data model\<close>

text \<open>
  The banking API keeps everything in Python dictionaries and one list. A dictionary is
  an association list in insertion order (\<open>dict.values()\<close> iterates in that order);
  a lookup is \<^const>\<open>map_of\<close>, and the assignment \<open>d[k] = v\<close> is \<open>AList.update\<close>, which
  replaces the value of an existing key in place and appends a new key at the end.
  A string is a list of characters, one \<open>char\<close> for each character of the Python string.
\<close>

section \<open>Python floats\<close>

text \<open>
  Balances and amounts are Python floats: IEEE 754 binary64 values. A finite float is the
  real number it denotes; the two zeros, which compare equal, are one value. The
  constructor \<open>Finite\<close> accepts every real, so a statement about all values of the type
  holds in particular for the finite floats; the operations round as IEEE 754 prescribes.
\<close>

datatype double = Finite real | PInf | NInf | NaN

text \<open>Rounding to the nearest integer, a tie going to the even neighbour.\<close>

definition round_half_even :: "real \<Rightarrow> int" where
  "round_half_even q =
     (let n = \<lfloor>q\<rfloor>; r = q - of_int n
      in if r < 1 / 2 then n else if 1 / 2 < r then n + 1 else if even n then n else n + 1)"

text \<open>The binary exponent of a positive real: the \<open>e\<close> with \<open>2^e \<le> x < 2^(e+1)\<close>.\<close>

definition expo :: "real \<Rightarrow> int" where
  "expo x = (if 1 \<le> x then bitlen \<lfloor>x\<rfloor> - 1 else - bitlen (\<lceil>1 / x\<rceil> - 1))"

text \<open>
  The float nearest to a real, ties to even: 53 significant bits, exponents from
  \<open>-1022\<close> (below it the spacing stays \<open>2^-1074\<close>), and an infinity when the rounded
  magnitude reaches \<open>2^1024\<close>.
\<close>

definition round_double :: "real \<Rightarrow> double" where
  "round_double x =
     (if x = 0 then Finite 0
      else
        let e = max (expo \<bar>x\<bar>) (- 1022);
            ulp = 2 powi (e - 52);
            m = of_int (round_half_even (\<bar>x\<bar> / ulp)) * ulp
        in if 2 powi 1024 \<le> m then (if 0 < x then PInf else NInf)
           else Finite (if 0 < x then m else - m))"

text \<open>Float addition, negation and the comparisons \<open><\<close>, \<open><=\<close> and \<open>!=\<close>.\<close>

fun fadd :: "double \<Rightarrow> double \<Rightarrow> double" where
  "fadd NaN _ = NaN"
| "fadd _ NaN = NaN"
| "fadd (Finite x) (Finite y) = round_double (x + y)"
| "fadd PInf NInf = NaN"
| "fadd NInf PInf = NaN"
| "fadd PInf _ = PInf"
| "fadd _ PInf = PInf"
| "fadd NInf _ = NInf"
| "fadd _ NInf = NInf"

fun fneg :: "double \<Rightarrow> double" where
  "fneg (Finite x) = Finite (- x)"
| "fneg PInf = NInf"
| "fneg NInf = PInf"
| "fneg NaN = NaN"

fun fless :: "double \<Rightarrow> double \<Rightarrow> bool" where
  "fless NaN _ = False"
| "fless _ NaN = False"
| "fless (Finite x) (Finite y) = (x < y)"
| "fless _ NInf = False"
| "fless PInf _ = False"
| "fless _ PInf = True"
| "fless NInf _ = True"

fun fle :: "double \<Rightarrow> double \<Rightarrow> bool" where
  "fle NaN _ = False"
| "fle _ NaN = False"
| "fle (Finite x) (Finite y) = (x \<le> y)"
| "fle NInf _ = True"
| "fle _ PInf = True"
| "fle _ NInf = False"
| "fle PInf _ = False"

fun fne :: "double \<Rightarrow> double \<Rightarrow> bool" where
  "fne NaN _ = True"
| "fne _ NaN = True"
| "fne a b = (a \<noteq> b)"

text \<open>
  \<open>round(value, 2)\<close>: the exact value is rounded to two decimal places, a tie going to
  the even digit, and the decimal obtained is converted back to the nearest float;
  infinities and NaN round to themselves.
\<close>

fun py_round2 :: "double \<Rightarrow> double" where
  "py_round2 (Finite v) = round_double (of_int (round_half_even (v * 100)) / 100)"
| "py_round2 d = d"

section \<open>Records of the program\<close>

type_synonym datetime = string

text \<open>A customer dictionary of \<open>seed_data.CUSTOMERS\<close>.\<close>

record customer =
  c_customer_id :: int
  c_name :: string
  c_email :: string

text \<open>
  An account dictionary. The seeded accounts carry their identifier under the key
  \<open>"id"\<close>, the accounts built by \<open>Database.create_account\<close> carry it under the key
  \<open>"account_id"\<close>; a key that a dictionary does not have is \<open>None\<close>. The keys
  \<open>"customer_id"\<close> and \<open>"balance"\<close> are present in every account dictionary, so no
  account dictionary is empty (and none is falsy).
\<close>

record account =
  a_id :: "string option"
  a_account_id :: "string option"
  a_customer_id :: int
  a_balance :: double

text \<open>The pydantic model \<open>Transfer\<close>.\<close>

record transfer =
  transaction_id :: string
  from_account_id :: string
  to_account_id :: string
  transfer_amount :: double
  timestamp :: datetime

text \<open>The pydantic request models \<open>AccountCreate\<close> and \<open>TransferRequest\<close>.\<close>

record AccountCreate =
  ac_customer_id :: int
  ac_initial_deposit :: double

record TransferRequest =
  req_from_account_id :: string
  req_to_account_id :: string
  req_transfer_amount :: double

text \<open>
  The exceptions of \<open>app/utils/exceptions.py\<close>, Python's \<open>KeyError\<close> (a subscript on a
  missing dictionary key) and the validation failure that FastAPI answers with 422.
\<close>

datatype error =
    AccountNotFoundException
  | CustomerNotFoundException
  | InsufficientFundsException
  | SelfTransferException
  | KeyError
  | RequestValidationError

text \<open>
  The object \<open>Database\<close>. The field \<open>lock_events\<close> is instrumentation, not program
  data: it records, in program order, each entry to and exit from \<open>with self.lock\<close> and
  each statement that mutates \<open>self.accounts\<close>, an account dictionary or
  \<open>self.transfers\<close>.
\<close>

datatype lock_event = Acquire | Release | Mutate

record database =
  customers :: "(int \<times> customer) list"
  accounts :: "(string \<times> account) list"
  transfers :: "transfer list"
  lock_events :: "lock_event list"

section \<open>Seed data (\<open>app/database/seed_data.py\<close>)\<close>

definition CUSTOMERS :: "(int \<times> customer) list" where
  "CUSTOMERS =
    [(1, \<lparr>c_customer_id = 1, c_name = ''Arisha Barron'', c_email = ''Arisha@dummy.com''\<rparr>),
     (2, \<lparr>c_customer_id = 2, c_name = ''Branden Gibson'', c_email = ''Branden@dummy.com''\<rparr>),
     (3, \<lparr>c_customer_id = 3, c_name = ''Rhonda Church'', c_email = ''Rhonda@dummy.com''\<rparr>),
     (4, \<lparr>c_customer_id = 4, c_name = ''Georgina Hazel'', c_email = ''Georgina@dummy.com''\<rparr>)]"

definition ACCOUNTS :: "(string \<times> account) list" where
  "ACCOUNTS =
    [(''acc1-1234'', \<lparr>a_id = Some ''acc1-1234'', a_account_id = None, a_customer_id = 1, a_balance = Finite 1000\<rparr>),
     (''acc2-5678'', \<lparr>a_id = Some ''acc2-5678'', a_account_id = None, a_customer_id = 2, a_balance = Finite 500\<rparr>),
     (''acc3-9012'', \<lparr>a_id = Some ''acc3-9012'', a_account_id = None, a_customer_id = 3, a_balance = Finite 750.5\<rparr>),
     (''acc4-3456'', \<lparr>a_id = Some ''acc4-3456'', a_account_id = None, a_customer_id = 4, a_balance = Finite 2000.75\<rparr>),
     (''acc5-7890'', \<lparr>a_id = Some ''acc5-7890'', a_account_id = None, a_customer_id = 1, a_balance = Finite 250\<rparr>)]"

definition TRANSFERS :: "transfer list" where
  "TRANSFERS =
    [\<lparr>transaction_id = ''txn1-1111'', from_account_id = ''acc1-1234'',
      to_account_id = ''acc2-5678'', transfer_amount = Finite 200,
      timestamp = ''2025-03-23T10:00:00''\<rparr>]"

section \<open>The store (\<open>app/database/db.py\<close>)\<close>

definition Database_init :: database where
  "Database_init =
    \<lparr>customers = CUSTOMERS, accounts = ACCOUNTS, transfers = TRANSFERS, lock_events = []\<rparr>"

definition get_customer :: "database \<Rightarrow> int \<Rightarrow> customer option" where
  "get_customer db customer_id = map_of (customers db) customer_id"

definition get_account :: "database \<Rightarrow> string \<Rightarrow> account option" where
  "get_account db account_id = map_of (accounts db) account_id"

definition get_accounts_by_customer :: "database \<Rightarrow> int \<Rightarrow> account list" where
  "get_accounts_by_customer db customer_id =
     filter (\<lambda>acc. a_customer_id acc = customer_id) (map snd (accounts db))"

text \<open>
  \<open>uuid_hex\<close> is the value of \<open>uuid.uuid4().hex\<close> drawn by this call: 32 hexadecimal
  digits chosen at random by the runtime, an input of the model. The identifier is
  \<open>"acc-"\<close> followed by its first eight digits; the dictionary assignment is done without
  looking whether the key is already there.
\<close>

definition Database_create_account ::
    "database \<Rightarrow> int \<Rightarrow> double \<Rightarrow> string \<Rightarrow> account \<times> database" where
  "Database_create_account db customer_id initial_deposit uuid_hex =
     (let account_id = ''acc-'' @ take 8 uuid_hex;
          account = \<lparr>a_id = None, a_account_id = Some account_id,
                     a_customer_id = customer_id, a_balance = initial_deposit\<rparr>
      in (account,
          db\<lparr>accounts := AList.update account_id account (accounts db),
             lock_events := lock_events db @ [Acquire, Mutate, Release]\<rparr>))"

definition Database_get_balance :: "database \<Rightarrow> string \<Rightarrow> error + double" where
  "Database_get_balance db account_id =
     (case get_account db account_id of
        None \<Rightarrow> Inl AccountNotFoundException
      | Some account \<Rightarrow> Inr (a_balance account))"

text \<open>
  \<open>update_balance\<close> does nothing for a missing account and takes no lock;
  \<open>account["balance"] += amount\<close> is a float addition.
\<close>

definition update_balance :: "database \<Rightarrow> string \<Rightarrow> double \<Rightarrow> database" where
  "update_balance db account_id amount =
     (case map_of (accounts db) account_id of
        None \<Rightarrow> db
      | Some account \<Rightarrow>
          db\<lparr>accounts :=
               AList.update account_id
                 (account\<lparr>a_balance := fadd (a_balance account) amount\<rparr>) (accounts db),
             lock_events := lock_events db @ [Mutate]\<rparr>)"

definition add_transfer :: "database \<Rightarrow> transfer \<Rightarrow> database" where
  "add_transfer db t =
     db\<lparr>transfers := transfers db @ [t],
        lock_events := lock_events db @ [Acquire, Mutate, Release]\<rparr>"

definition get_transfers_by_account :: "database \<Rightarrow> string \<Rightarrow> error + transfer list" where
  "get_transfers_by_account db account_id =
     (if map_of (accounts db) account_id = None then Inl AccountNotFoundException
      else Inr (filter (\<lambda>t. from_account_id t = account_id \<or> to_account_id t = account_id)
                  (transfers db)))"

text \<open>
  \<open>acc["id"]\<close> raises \<open>KeyError\<close> on an account dictionary without the key \<open>"id"\<close>;
  \<^const>\<open>those\<close> is \<open>None\<close> as soon as one of the subscripts fails.
\<close>

definition get_transfers_by_customer :: "database \<Rightarrow> int \<Rightarrow> error + transfer list" where
  "get_transfers_by_customer db customer_id =
     (if map_of (customers db) customer_id = None then Inl AccountNotFoundException
      else
        (case those (map a_id (get_accounts_by_customer db customer_id)) of
           None \<Rightarrow> Inl KeyError
         | Some customer_accounts \<Rightarrow>
             Inr (filter (\<lambda>t. from_account_id t \<in> set customer_accounts
                             \<or> to_account_id t \<in> set customer_accounts)
                    (transfers db))))"

section \<open>The service (\<open>app/services/banking_service.py\<close>)\<close>

text \<open>
  A call returns its result or the exception it raised, together with the store as the
  call leaves it. A customer dictionary is never empty, so \<open>not get_customer(...)\<close> is
  the test for \<open>None\<close>; likewise for account dictionaries.
\<close>

definition create_account ::
    "database \<Rightarrow> int \<Rightarrow> double \<Rightarrow> string \<Rightarrow> (error + account) \<times> database" where
  "create_account db customer_id initial_deposit uuid_hex =
     (case get_customer db customer_id of
        None \<Rightarrow> (Inl CustomerNotFoundException, db)
      | Some _ \<Rightarrow>
          (let (account, db') = Database_create_account db customer_id initial_deposit uuid_hex
           in (Inr account, db')))"

definition get_balance :: "database \<Rightarrow> string \<Rightarrow> error + double" where
  "get_balance db account_id = Database_get_balance db account_id"

definition get_transfers :: "database \<Rightarrow> string \<Rightarrow> error + transfer list" where
  "get_transfers db account_id = get_transfers_by_account db account_id"

text \<open>
  \<open>transfer_id\<close> is the value of \<open>str(uuid.uuid4())\<close> and \<open>now\<close> the value of
  \<open>datetime.now()\<close> of this call. \<open>from_account == to_account\<close> compares the two
  dictionaries by their contents; a dictionary compared with itself is equal whatever its
  balance, as a record is equal to itself.
\<close>

definition execute_transfer ::
    "database \<Rightarrow> string \<Rightarrow> string \<Rightarrow> double \<Rightarrow> string \<Rightarrow> datetime
      \<Rightarrow> (error + transfer) \<times> database" where
  "execute_transfer db from_id to_id amount transfer_id now =
     (case get_account db from_id of
        None \<Rightarrow> (Inl AccountNotFoundException, db)
      | Some from_account \<Rightarrow>
         (case get_account db to_id of
            None \<Rightarrow> (Inl AccountNotFoundException, db)
          | Some to_account \<Rightarrow>
              if from_account = to_account then (Inl SelfTransferException, db)
              else if fless (a_balance from_account) amount then (Inl InsufficientFundsException, db)
              else
                (let db1 = update_balance db from_id (fneg amount);
                     db2 = update_balance db1 to_id amount;
                     t = \<lparr>transaction_id = transfer_id, from_account_id = from_id,
                          to_account_id = to_id, transfer_amount = amount,
                          timestamp = now\<rparr>;
                     db3 = add_transfer db2 t
                 in (Inr t, db3))))"

section \<open>The routes (\<open>app/routers/routes.py\<close>) and request validation\<close>

text \<open>
  The field constraints \<open>gt=0\<close>, \<open>le=1_000_000\<close> and \<open>max_length=36\<close> and the two
  field validators, which raise when \<open>round(value, 2) != value\<close>. A request is valid when
  no constraint fails and no validator raises.
\<close>

definition check_deposit_precision :: "double \<Rightarrow> bool" where
  "check_deposit_precision v = (\<not> fne (py_round2 v) v)"

definition check_amount_precision :: "double \<Rightarrow> bool" where
  "check_amount_precision v = (\<not> fne (py_round2 v) v)"

definition valid_AccountCreate :: "AccountCreate \<Rightarrow> bool" where
  "valid_AccountCreate a =
     (fless (Finite 0) (ac_initial_deposit a) \<and> fle (ac_initial_deposit a) (Finite 1000000)
      \<and> check_deposit_precision (ac_initial_deposit a))"

definition valid_TransferRequest :: "TransferRequest \<Rightarrow> bool" where
  "valid_TransferRequest r =
     (length (req_from_account_id r) \<le> 36 \<and> length (req_to_account_id r) \<le> 36
      \<and> fless (Finite 0) (req_transfer_amount r)
      \<and> fle (req_transfer_amount r) (Finite 1000000)
      \<and> check_amount_precision (req_transfer_amount r))"

text \<open>The route bodies, run on a request that passed validation.\<close>

definition route_create_account ::
    "database \<Rightarrow> AccountCreate \<Rightarrow> string \<Rightarrow> (error + account) \<times> database" where
  "route_create_account db a uuid_hex =
     create_account db (ac_customer_id a) (ac_initial_deposit a) uuid_hex"

definition route_transfer_amount ::
    "database \<Rightarrow> TransferRequest \<Rightarrow> string \<Rightarrow> datetime \<Rightarrow> (error + transfer) \<times> database" where
  "route_transfer_amount db r transfer_id now =
     (if req_from_account_id r = req_to_account_id r then (Inl SelfTransferException, db)
      else execute_transfer db (req_from_account_id r) (req_to_account_id r)
             (req_transfer_amount r) transfer_id now)"

text \<open>The two POST operations as a client reaches them: validation, then the route.\<close>

definition post_accounts ::
    "database \<Rightarrow> AccountCreate \<Rightarrow> string \<Rightarrow> (error + account) \<times> database" where
  "post_accounts db a uuid_hex =
     (if valid_AccountCreate a then route_create_account db a uuid_hex
      else (Inl RequestValidationError, db))"

definition post_transfers ::
    "database \<Rightarrow> TransferRequest \<Rightarrow> string \<Rightarrow> datetime \<Rightarrow> (error + transfer) \<times> database" where
  "post_transfers db r transfer_id now =
     (if valid_TransferRequest r then route_transfer_amount db r transfer_id now
      else (Inl RequestValidationError, db))"

text \<open>The states a client can bring the store into, starting from the seed.\<close>

inductive reachable :: "database \<Rightarrow> bool" where
  reachable_init: "reachable Database_init"
| reachable_post_accounts:
    "reachable db \<Longrightarrow> reachable (snd (post_accounts db a uuid_hex))"
| reachable_post_transfers:
    "reachable db \<Longrightarrow> reachable (snd (post_transfers db r transfer_id now))"

section \<open>Derived notions used in the statements\<close>

text \<open>
  The representation invariant of the account dictionary: its keys are distinct, and the
  dictionary stored under a key names that key, under \<open>"id"\<close> (seeded) or under
  \<open>"account_id"\<close> (created).
\<close>

definition names_key :: "string \<Rightarrow> account \<Rightarrow> bool" where
  "names_key k acc =
     ((a_id acc = Some k \<and> a_account_id acc = None)
      \<or> (a_id acc = None \<and> a_account_id acc = Some k))"

definition db_inv :: "database \<Rightarrow> bool" where
  "db_inv db =
     (distinct (map fst (accounts db))
      \<and> list_all (\<lambda>(k, acc). names_key k acc) (accounts db))"

text \<open>
  The sum of all balances, as a real number; it is the sum the claims speak of when every
  balance is finite.
\<close>

fun real_of_double :: "double \<Rightarrow> real" where
  "real_of_double (Finite r) = r"
| "real_of_double d = 0"

fun is_finite :: "double \<Rightarrow> bool" where
  "is_finite (Finite r) = True"
| "is_finite d = False"

definition finite_balances :: "database \<Rightarrow> bool" where
  "finite_balances db = list_all (\<lambda>(k, acc). is_finite (a_balance acc)) (accounts db)"

definition total_balance :: "database \<Rightarrow> real" where
  "total_balance db = sum_list (map (\<lambda>(k, acc). real_of_double (a_balance acc)) (accounts db))"

text \<open>Every balance satisfies \<open>0 <= balance\<close>.\<close>

definition balances_nonneg :: "database \<Rightarrow> bool" where
  "balances_nonneg db = list_all (\<lambda>(k, acc). fle (Finite 0) (a_balance acc)) (accounts db)"

text \<open>
  Whether every \<open>Mutate\<close> of a trace happens between an \<open>Acquire\<close> and the next
  \<open>Release\<close>; the flag says whether the lock is held at the start.
\<close>

fun guarded :: "bool \<Rightarrow> lock_event list \<Rightarrow> bool" where
  "guarded held [] = True"
| "guarded held (Acquire # es) = guarded True es"
| "guarded held (Release # es) = guarded False es"
| "guarded held (Mutate # es) = (held \<and> guarded held es)"

section \<open>Facts about float rounding\<close>

lemma round_half_even_error: "\<bar>of_int (round_half_even q) - q\<bar> \<le> 1 / 2"
proof -
  have "of_int \<lfloor>q\<rfloor> \<le> q" "q < of_int \<lfloor>q\<rfloor> + 1" by linarith+
  then show ?thesis
    by (auto simp: round_half_even_def Let_def)
qed

lemma round_half_even_nonneg: "0 \<le> q \<Longrightarrow> 0 \<le> round_half_even q"
  by (auto simp: round_half_even_def Let_def)

lemma expo_lower:
  assumes "0 < x"
  shows "2 powi (expo x) \<le> x"
proof (cases "1 \<le> x")
  case True
  then have pos: "0 < \<lfloor>x\<rfloor>" by linarith
  from bitlen_bounds [OF pos] have "2 ^ nat (bitlen \<lfloor>x\<rfloor> - 1) \<le> \<lfloor>x\<rfloor>" by simp
  then have "real_of_int (2 ^ nat (bitlen \<lfloor>x\<rfloor> - 1)) \<le> of_int \<lfloor>x\<rfloor>"
    by (simp only: of_int_le_iff)
  also have "\<dots> \<le> x" by linarith
  finally have "(2::real) ^ nat (bitlen \<lfloor>x\<rfloor> - 1) \<le> x" by simp
  moreover have "1 \<le> bitlen \<lfloor>x\<rfloor>"
    using pos by (simp add: bitlen_alt_def)
  ultimately show ?thesis
    using True by (simp add: expo_def power_int_def)
next
  case False
  with assms have x1: "x < 1" by simp
  let ?c = "\<lceil>1 / x\<rceil>"
  let ?k = "bitlen (?c - 1)"
  have "1 < 1 / x" using assms x1 by simp
  then have c2: "2 \<le> ?c" by linarith
  then have pos: "0 < ?c - 1" by simp
  from bitlen_bounds [OF pos] have "?c - 1 < 2 ^ nat ?k" by simp
  then have "?c \<le> 2 ^ nat ?k" by simp
  then have "real_of_int ?c \<le> of_int (2 ^ nat ?k)" by (simp only: of_int_le_iff)
  then have "real_of_int ?c \<le> 2 ^ nat ?k" by simp
  moreover have "1 / x \<le> of_int ?c" by linarith
  ultimately have "1 / x \<le> 2 ^ nat ?k" by linarith
  then have "1 \<le> 2 ^ nat ?k * x"
    using assms by (simp add: field_simps)
  then have le: "inverse (2 ^ nat ?k) \<le> x"
    by (simp add: field_simps)
  have k0: "0 \<le> ?k" by (rule bitlen_nonneg)
  have "2 powi (- ?k) = inverse ((2::real) ^ nat ?k)"
    using k0 by (simp add: power_int_minus power_int_def power_one_over [symmetric] inverse_eq_divide)
  with le show ?thesis using False by (simp add: expo_def)
qed

lemma expo_upper:
  assumes "0 < x"
  shows "x < 2 powi (expo x + 1)"
proof (cases "1 \<le> x")
  case True
  then have pos: "0 < \<lfloor>x\<rfloor>" by linarith
  from bitlen_bounds [OF pos] have "\<lfloor>x\<rfloor> < 2 ^ nat (bitlen \<lfloor>x\<rfloor>)" by simp
  then have "\<lfloor>x\<rfloor> + 1 \<le> 2 ^ nat (bitlen \<lfloor>x\<rfloor>)" by simp
  then have "real_of_int (\<lfloor>x\<rfloor> + 1) \<le> of_int (2 ^ nat (bitlen \<lfloor>x\<rfloor>))"
    by (simp only: of_int_le_iff)
  then have "real_of_int \<lfloor>x\<rfloor> + 1 \<le> 2 ^ nat (bitlen \<lfloor>x\<rfloor>)" by simp
  moreover have "x < of_int \<lfloor>x\<rfloor> + 1" by linarith
  ultimately have "x < 2 ^ nat (bitlen \<lfloor>x\<rfloor>)" by linarith
  moreover have "0 \<le> bitlen \<lfloor>x\<rfloor>" by (rule bitlen_nonneg)
  ultimately show ?thesis
    using True by (simp add: expo_def power_int_def)
next
  case False
  with assms have x1: "x < 1" by simp
  let ?c = "\<lceil>1 / x\<rceil>"
  let ?k = "bitlen (?c - 1)"
  have "1 < 1 / x" using assms x1 by simp
  then have c2: "2 \<le> ?c" by linarith
  then have pos: "0 < ?c - 1" by simp
  then have k1: "1 \<le> ?k" by (simp add: bitlen_alt_def)
  from bitlen_bounds [OF pos] have "2 ^ nat (?k - 1) \<le> ?c - 1" by simp
  then have "real_of_int (2 ^ nat (?k - 1)) \<le> of_int (?c - 1)" by (simp only: of_int_le_iff)
  then have "2 ^ nat (?k - 1) \<le> real_of_int ?c - 1" by simp
  moreover have "real_of_int ?c - 1 < 1 / x" by linarith
  ultimately have "2 ^ nat (?k - 1) < 1 / x" by linarith
  then have "2 ^ nat (?k - 1) * x < 1"
    using assms by (simp add: field_simps)
  then have lt: "x < inverse (2 ^ nat (?k - 1))"
    by (simp add: field_simps)
  have "2 powi (- ?k + 1) = inverse ((2::real) ^ nat (?k - 1))"
  proof -
    have "- ?k + 1 = - (?k - 1)" by simp
    then have "2 powi (- ?k + 1) = inverse ((2::real) powi (?k - 1))"
      by (simp only: power_int_minus)
    also have "(2::real) powi (?k - 1) = 2 ^ nat (?k - 1)"
      using k1 by (simp add: power_int_def)
    finally show ?thesis .
  qed
  with lt show ?thesis using False by (simp add: expo_def)
qed

lemma round_double_nonneg: "0 \<le> x \<Longrightarrow> fle (Finite 0) (round_double x)"
  by (auto simp: round_double_def Let_def round_half_even_nonneg)

lemma round_double_error:
  assumes "round_double x = Finite r"
  shows "\<bar>r - x\<bar> \<le> \<bar>x\<bar> / 2 ^ 53 + 1 / 2 ^ 1075"
proof (cases "x = 0")
  case True
  with assms show ?thesis by (simp add: round_double_def)
next
  case False
  define e where "e = max (expo \<bar>x\<bar>) (- 1022)"
  define ulp :: real where "ulp = 2 powi (e - 52)"
  define m where "m = of_int (round_half_even (\<bar>x\<bar> / ulp)) * ulp"
  have ulp_pos: "0 < ulp" by (simp add: ulp_def)
  have r: "r = (if 0 < x then m else - m)"
    using assms False
    by (auto simp: round_double_def Let_def e_def ulp_def m_def split: if_splits)
  have "\<bar>of_int (round_half_even (\<bar>x\<bar> / ulp)) - \<bar>x\<bar> / ulp\<bar> \<le> 1 / 2"
    by (rule round_half_even_error)
  then have "\<bar>of_int (round_half_even (\<bar>x\<bar> / ulp)) - \<bar>x\<bar> / ulp\<bar> * ulp \<le> 1 / 2 * ulp"
    using ulp_pos by (simp only: mult_le_cancel_right_pos)
  moreover have "\<bar>of_int (round_half_even (\<bar>x\<bar> / ulp)) - \<bar>x\<bar> / ulp\<bar> * ulp = \<bar>m - \<bar>x\<bar>\<bar>"
  proof -
    have "\<bar>of_int (round_half_even (\<bar>x\<bar> / ulp)) - \<bar>x\<bar> / ulp\<bar> * ulp
        = \<bar>(of_int (round_half_even (\<bar>x\<bar> / ulp)) - \<bar>x\<bar> / ulp) * ulp\<bar>"
      using ulp_pos by (simp add: abs_mult)
    also have "(of_int (round_half_even (\<bar>x\<bar> / ulp)) - \<bar>x\<bar> / ulp) * ulp = m - \<bar>x\<bar>"
      using ulp_pos by (simp add: m_def left_diff_distrib)
    finally show ?thesis .
  qed
  ultimately have err: "\<bar>m - \<bar>x\<bar>\<bar> \<le> ulp / 2" by simp
  have rx: "\<bar>r - x\<bar> = \<bar>m - \<bar>x\<bar>\<bar>"
    using r False by (cases "0 < x") auto
  have "ulp / 2 \<le> \<bar>x\<bar> / 2 ^ 53 + 1 / 2 ^ 1075"
  proof (cases "- 1022 \<le> expo \<bar>x\<bar>")
    case True
    then have e: "e = expo \<bar>x\<bar>" by (simp add: e_def)
    have "0 < \<bar>x\<bar>" using False by simp
    then have "2 powi e \<le> \<bar>x\<bar>" unfolding e by (rule expo_lower)
    moreover have "ulp = 2 powi e / 2 ^ 52"
      by (simp add: ulp_def power_int_diff)
    ultimately have "ulp / 2 \<le> \<bar>x\<bar> / 2 ^ 53"
      by (simp add: field_simps)
    then show ?thesis by simp
  next
    case False
    then have "e = - 1022" by (simp add: e_def)
    then have "ulp = 1 / 2 ^ 1074" by (simp add: ulp_def power_int_minus field_simps)
    then have "ulp / 2 = 1 / 2 ^ 1075" by simp
    then show ?thesis by simp
  qed
  with err rx show ?thesis by linarith
qed


lemma fle_imp_not_fless: "fle a b \<Longrightarrow> \<not> fless b a"
  by (cases a; cases b) auto

lemma fadd_debit_nonneg:
  assumes "fle (Finite 0) b" and "\<not> fless b (Finite y)"
  shows "fle (Finite 0) (fadd b (fneg (Finite y)))"
proof (cases b)
  case (Finite x)
  with assms have "0 \<le> x + - y" by simp
  then have "fle (Finite 0) (round_double (x + - y))" by (rule round_double_nonneg)
  with Finite show ?thesis by simp
qed (use assms in auto)

lemma fadd_credit_nonneg:
  assumes "fle (Finite 0) b" and "0 \<le> y"
  shows "fle (Finite 0) (fadd b (Finite y))"
proof (cases b)
  case (Finite x)
  with assms have "0 \<le> x + y" by simp
  then have "fle (Finite 0) (round_double (x + y))" by (rule round_double_nonneg)
  with Finite show ?thesis by simp
qed (use assms in auto)

lemma valid_amount_finite:
  assumes "fless (Finite 0) v" and "fle v (Finite c)"
  obtains y where "v = Finite y" and "0 < y" and "y \<le> c"
  using assms by (cases v) auto

section \<open>Facts about the store operations\<close>

lemma names_key_inj: "names_key k1 a1 \<Longrightarrow> names_key k2 a2 \<Longrightarrow> k1 \<noteq> k2 \<Longrightarrow> a1 \<noteq> a2"
  by (auto simp: names_key_def)

lemma db_inv_distinct_accounts:
  assumes "db_inv db" "get_account db A = Some accA" "get_account db B = Some accB" "A \<noteq> B"
  shows "accA \<noteq> accB"
proof -
  have "names_key A accA" "names_key B accB"
    using assms by (auto simp: db_inv_def get_account_def list_all_iff dest!: map_of_SomeD)
  with \<open>A \<noteq> B\<close> show ?thesis by (auto dest: names_key_inj)
qed

lemma sum_update_balance:
  "distinct (map fst xs) \<Longrightarrow> map_of xs k = Some acc \<Longrightarrow>
   sum_list (map (\<lambda>(k, acc). real_of_double (a_balance acc))
      (AList.update k (acc\<lparr>a_balance := b\<rparr>) xs))
   = sum_list (map (\<lambda>(k, acc). real_of_double (a_balance acc)) xs)
     - real_of_double (a_balance acc) + real_of_double b"
proof (induction xs)
  case Nil
  then show ?case by simp
next
  case (Cons x xs)
  obtain k' v' where x: "x = (k', v')" by (cases x)
  show ?case
  proof (cases "k' = k")
    case True
    with Cons.prems x show ?thesis by simp
  next
    case False
    with Cons x show ?thesis by simp
  qed
qed

lemma get_account_update_balance:
  "get_account (update_balance db k d) k' =
     (if k' = k
      then map_option (\<lambda>acc. acc\<lparr>a_balance := fadd (a_balance acc) d\<rparr>) (get_account db k)
      else get_account db k')"
  by (auto simp: get_account_def update_balance_def update_conv' split: option.splits)

lemma transfers_update_balance: "transfers (update_balance db k d) = transfers db"
  by (simp add: update_balance_def split: option.splits)

lemma distinct_update_balance:
  "distinct (map fst (accounts db)) \<Longrightarrow> distinct (map fst (accounts (update_balance db k d)))"
  by (simp add: update_balance_def distinct_update split: option.splits)

lemma total_update_balance:
  "distinct (map fst (accounts db)) \<Longrightarrow> get_account db k = Some acc \<Longrightarrow>
   total_balance (update_balance db k d)
     = total_balance db - real_of_double (a_balance acc)
       + real_of_double (fadd (a_balance acc) d)"
  by (simp add: total_balance_def update_balance_def get_account_def sum_update_balance)

lemma get_account_add_transfer: "get_account (add_transfer db t) k = get_account db k"
  by (simp add: get_account_def add_transfer_def)

lemma transfers_add_transfer: "transfers (add_transfer db t) = transfers db @ [t]"
  by (simp add: add_transfer_def)

lemma total_add_transfer: "total_balance (add_transfer db t) = total_balance db"
  by (simp add: total_balance_def add_transfer_def)

lemma db_inv_init: "db_inv Database_init"
  by (simp add: db_inv_def Database_init_def ACCOUNTS_def names_key_def)

lemma execute_transfer_success:
  assumes "get_account db A = Some accA" and "get_account db B = Some accB"
    and "accA \<noteq> accB" and "\<not> fless (a_balance accA) amount"
  shows "execute_transfer db A B amount transfer_id now =
     (Inr \<lparr>transaction_id = transfer_id, from_account_id = A, to_account_id = B,
           transfer_amount = amount, timestamp = now\<rparr>,
      add_transfer (update_balance (update_balance db A (fneg amount)) B amount)
        \<lparr>transaction_id = transfer_id, from_account_id = A, to_account_id = B,
          transfer_amount = amount, timestamp = now\<rparr>)"
  using assms by (simp add: execute_transfer_def Let_def)

lemma execute_transfer_successD:
  assumes "fst (execute_transfer db A B amount transfer_id now) = Inr t"
  obtains accA accB where "get_account db A = Some accA" and "get_account db B = Some accB"
    and "accA \<noteq> accB" and "\<not> fless (a_balance accA) amount" and "A \<noteq> B"
proof -
  from assms obtain accA accB where
    A: "get_account db A = Some accA" and B: "get_account db B = Some accB"
    and ne: "accA \<noteq> accB" and ok: "\<not> fless (a_balance accA) amount"
    by (auto simp: execute_transfer_def split: option.splits if_splits)
  from A B ne have "A \<noteq> B" by auto
  with A B ne ok show ?thesis by (rule that)
qed

lemma is_finite_iff: "is_finite d = (\<exists>r. d = Finite r)"
  by (cases d) auto

lemma finite_balances_lookup:
  "finite_balances db \<Longrightarrow> get_account db k = Some acc \<Longrightarrow> \<exists>r. a_balance acc = Finite r"
  by (auto simp: finite_balances_def get_account_def list_all_iff is_finite_iff
      dest!: map_of_SomeD)

lemma list_all_update:
  "list_all P xs \<Longrightarrow> P (k, v) \<Longrightarrow> list_all P (AList.update k v xs)"
  by (induction xs) (auto)

lemma balances_nonneg_update_balance:
  assumes "balances_nonneg db"
    and "\<And>acc. get_account db k = Some acc \<Longrightarrow> fle (Finite 0) (fadd (a_balance acc) d)"
  shows "balances_nonneg (update_balance db k d)"
  using assms
  by (auto simp: balances_nonneg_def update_balance_def get_account_def
      split: option.splits intro!: list_all_update)

lemma balances_nonneg_lookup:
  "balances_nonneg db \<Longrightarrow> get_account db k = Some acc \<Longrightarrow> fle (Finite 0) (a_balance acc)"
  by (auto simp: balances_nonneg_def get_account_def list_all_iff dest!: map_of_SomeD)

lemma balances_nonneg_add_transfer:
  "balances_nonneg (add_transfer db t) = balances_nonneg db"
  by (simp add: balances_nonneg_def add_transfer_def)

lemma balances_nonneg_execute_transfer:
  assumes "balances_nonneg db" and "0 \<le> y"
  shows "balances_nonneg (snd (execute_transfer db from_id to_id (Finite y) transfer_id now))"
proof (cases "fst (execute_transfer db from_id to_id (Finite y) transfer_id now)")
  case (Inl e)
  then have "snd (execute_transfer db from_id to_id (Finite y) transfer_id now) = db"
    by (auto simp: execute_transfer_def Let_def split: option.splits if_splits)
  with assms(1) show ?thesis by simp
next
  case (Inr t)
  then obtain accA accB where
    A: "get_account db from_id = Some accA" and B: "get_account db to_id = Some accB"
    and ne: "accA \<noteq> accB" and ok: "\<not> fless (a_balance accA) (Finite y)"
    and ids: "from_id \<noteq> to_id"
    by (rule execute_transfer_successD)
  let ?db1 = "update_balance db from_id (fneg (Finite y))"
  have "fle (Finite 0) (a_balance accA)"
    using assms(1) A by (rule balances_nonneg_lookup)
  then have "fle (Finite 0) (fadd (a_balance accA) (fneg (Finite y)))"
    using ok by (rule fadd_debit_nonneg)
  with A have n1: "balances_nonneg ?db1"
    by (intro balances_nonneg_update_balance [OF assms(1)]) simp
  have B1: "get_account ?db1 to_id = Some accB"
    using B ids by (simp add: get_account_update_balance)
  have "fle (Finite 0) (a_balance accB)"
    using assms(1) B by (rule balances_nonneg_lookup)
  then have "fle (Finite 0) (fadd (a_balance accB) (Finite y))"
    using assms(2) by (rule fadd_credit_nonneg)
  with B1 have n2: "balances_nonneg (update_balance ?db1 to_id (Finite y))"
    by (intro balances_nonneg_update_balance [OF n1]) simp
  show ?thesis
    unfolding execute_transfer_success [OF A B ne ok]
    using n2 by (simp add: balances_nonneg_add_transfer)
qed

lemma balances_nonneg_create_account:
  assumes "balances_nonneg db" and "fle (Finite 0) initial_deposit"
  shows "balances_nonneg (snd (create_account db customer_id initial_deposit uuid_hex))"
  using assms
  by (auto simp: create_account_def Database_create_account_def balances_nonneg_def Let_def
      split: option.splits intro!: list_all_update)

lemma balances_nonneg_init: "balances_nonneg Database_init"
  by (simp add: balances_nonneg_def Database_init_def ACCOUNTS_def)

lemma fless_imp_fle: "fless a b \<Longrightarrow> fle a b"
  by (cases a; cases b) auto

lemma balances_nonneg_post_accounts:
  "balances_nonneg db \<Longrightarrow> balances_nonneg (snd (post_accounts db a uuid_hex))"
  by (simp add: post_accounts_def route_create_account_def valid_AccountCreate_def
      balances_nonneg_create_account fless_imp_fle)

lemma balances_nonneg_post_transfers:
  assumes "balances_nonneg db"
  shows "balances_nonneg (snd (post_transfers db r transfer_id now))"
proof (cases "valid_TransferRequest r \<and> req_from_account_id r \<noteq> req_to_account_id r")
  case True
  then obtain y where y: "req_transfer_amount r = Finite y" "0 < y"
    by (auto simp: valid_TransferRequest_def elim: valid_amount_finite)
  with True assms show ?thesis
    by (simp add: post_transfers_def route_transfer_amount_def
        balances_nonneg_execute_transfer)
next
  case False
  with assms show ?thesis
    by (auto simp: post_transfers_def route_transfer_amount_def)
qed

lemma names_key_balance [simp]: "names_key k (acc\<lparr>a_balance := b\<rparr>) = names_key k acc"
  by (simp add: names_key_def)

lemma db_inv_update_balance:
  assumes "db_inv db"
  shows "db_inv (update_balance db k d)"
proof (cases "map_of (accounts db) k")
  case None
  with assms show ?thesis by (simp add: update_balance_def)
next
  case (Some acc)
  then have "names_key k acc"
    using assms by (auto simp: db_inv_def list_all_iff dest!: map_of_SomeD)
  with assms Some show ?thesis
    by (simp add: db_inv_def update_balance_def distinct_update list_all_update)
qed

lemma db_inv_add_transfer: "db_inv (add_transfer db t) = db_inv db"
  by (simp add: db_inv_def add_transfer_def)

lemma db_inv_execute_transfer:
  "db_inv db \<Longrightarrow> db_inv (snd (execute_transfer db from_id to_id amount transfer_id now))"
  by (simp add: execute_transfer_def Let_def db_inv_add_transfer db_inv_update_balance
      split: option.splits)

lemma db_inv_create_account:
  "db_inv db \<Longrightarrow> db_inv (snd (create_account db customer_id initial_deposit uuid_hex))"
  by (auto simp: create_account_def Database_create_account_def db_inv_def Let_def
      distinct_update names_key_def split: option.splits intro!: list_all_update)

lemma get_account_Database_create_account:
  "get_account (snd (Database_create_account db cid dep u)) k =
     (if k = ''acc-'' @ take 8 u
      then Some \<lparr>a_id = None, a_account_id = Some (''acc-'' @ take 8 u),
                 a_customer_id = cid, a_balance = dep\<rparr>
      else get_account db k)"
  by (simp add: Database_create_account_def get_account_def Let_def update_conv')

lemma get_transfers_by_customer_absent:
  "map_of (customers db) customer_id = None \<Longrightarrow>
   get_transfers_by_customer db customer_id = Inl AccountNotFoundException"
  by (simp add: get_transfers_by_customer_def)

lemma those_map_Some:
  "list_all (\<lambda>x. f x \<noteq> None) xs \<Longrightarrow> those (map f xs) = Some (map (\<lambda>x. the (f x)) xs)"
  by (induction xs) auto

lemma get_transfers_by_customer_seeded:
  assumes "map_of (customers db) customer_id \<noteq> None"
    and "list_all (\<lambda>acc. a_id acc \<noteq> None) (get_accounts_by_customer db customer_id)"
  shows "get_transfers_by_customer db customer_id =
     Inr (filter (\<lambda>t. from_account_id t \<in> (\<lambda>acc. the (a_id acc)) ` set (get_accounts_by_customer db customer_id)
                     \<or> to_account_id t \<in> (\<lambda>acc. the (a_id acc)) ` set (get_accounts_by_customer db customer_id))
            (transfers db))"
  using assms by (simp add: get_transfers_by_customer_def those_map_Some)

lemma get_transfers_by_customer_init:
  "get_transfers_by_customer Database_init 1 = Inr TRANSFERS"
  by (simp add: get_transfers_by_customer_def get_accounts_by_customer_def
        Database_init_def CUSTOMERS_def ACCOUNTS_def TRANSFERS_def)

lemma lock_events_execute_transfer:
  assumes "fst (execute_transfer db from_id to_id amount transfer_id now) = Inr t"
  shows "lock_events (snd (execute_transfer db from_id to_id amount transfer_id now))
       = lock_events db @ [Mutate, Mutate, Acquire, Mutate, Release]"
proof -
  from assms obtain accA accB where
    A: "get_account db from_id = Some accA" and B: "get_account db to_id = Some accB"
    and ne: "accA \<noteq> accB" and ok: "\<not> fless (a_balance accA) amount"
    by (auto simp: execute_transfer_def split: option.splits if_splits)
  from A B ne have ids: "to_id \<noteq> from_id" by auto
  have B1: "get_account (update_balance db from_id (fneg amount)) to_id = Some accB"
    using B ids by (simp add: get_account_update_balance)
  have l1: "lock_events (update_balance db from_id (fneg amount)) = lock_events db @ [Mutate]"
    using A by (simp add: update_balance_def get_account_def)
  have l2: "lock_events (update_balance (update_balance db from_id (fneg amount)) to_id amount)
      = lock_events db @ [Mutate, Mutate]"
    using B1 l1 by (simp add: update_balance_def get_account_def)
  show ?thesis
    using A B ne ok l2 by (simp add: execute_transfer_def Let_def add_transfer_def)
qed

lemma reachable_db_inv: "reachable db \<Longrightarrow> db_inv db"
proof (induction rule: reachable.induct)
  case reachable_init
  show ?case by (rule db_inv_init)
next
  case (reachable_post_accounts db a uuid_hex)
  then show ?case
    by (simp add: post_accounts_def route_create_account_def db_inv_create_account)
next
  case (reachable_post_transfers db r transfer_id now)
  then show ?case
    by (simp add: post_transfers_def route_transfer_amount_def db_inv_execute_transfer)
qed

lemmas float_eval = round_double_def expo_def compute_bitlen round_half_even_def Let_def

lemma seed_acc1: "get_account Database_init ''acc1-1234''
      = Some \<lparr>a_id = Some ''acc1-1234'', a_account_id = None, a_customer_id = 1,
               a_balance = Finite 1000\<rparr>"
  by (simp add: get_account_def Database_init_def ACCOUNTS_def)

lemma seed_acc2: "get_account Database_init ''acc2-5678''
      = Some \<lparr>a_id = Some ''acc2-5678'', a_account_id = None, a_customer_id = 2,
               a_balance = Finite 500\<rparr>"
  by (simp add: get_account_def Database_init_def ACCOUNTS_def)

lemma seed_acc5: "get_account Database_init ''acc5-7890''
      = Some \<lparr>a_id = Some ''acc5-7890'', a_account_id = None, a_customer_id = 1,
               a_balance = Finite 250\<rparr>"
  by (simp add: get_account_def Database_init_def ACCOUNTS_def)

lemma finite_balances_init: "finite_balances Database_init"
  by (simp add: finite_balances_def Database_init_def ACCOUNTS_def)

lemma total_balance_init: "total_balance Database_init = 4501.25"
  by (simp add: total_balance_def Database_init_def ACCOUNTS_def)

lemma seed_transfer_006:
  "execute_transfer Database_init ''acc1-1234'' ''acc5-7890''
       (Finite (1080863910568919 / 18014398509481984)) ''t'' ''n''
   = (Inr \<lparr>transaction_id = ''t'', from_account_id = ''acc1-1234'',
           to_account_id = ''acc5-7890'',
           transfer_amount = Finite (1080863910568919 / 18014398509481984),
           timestamp = ''n''\<rparr>,
      \<lparr>customers = CUSTOMERS,
        accounts =
         [(''acc1-1234'', \<lparr>a_id = Some ''acc1-1234'', a_account_id = None, a_customer_id = 1,
             a_balance = Finite (2198891314156667 / 2199023255552)\<rparr>),
          (''acc2-5678'', \<lparr>a_id = Some ''acc2-5678'', a_account_id = None, a_customer_id = 2,
             a_balance = Finite 500\<rparr>),
          (''acc3-9012'', \<lparr>a_id = Some ''acc3-9012'', a_account_id = None, a_customer_id = 3,
             a_balance = Finite 750.5\<rparr>),
          (''acc4-3456'', \<lparr>a_id = Some ''acc4-3456'', a_account_id = None, a_customer_id = 4,
             a_balance = Finite 2000.75\<rparr>),
          (''acc5-7890'', \<lparr>a_id = Some ''acc5-7890'', a_account_id = None, a_customer_id = 1,
             a_balance = Finite (4399102042266665 / 17592186044416)\<rparr>)],
        transfers = TRANSFERS @
          [\<lparr>transaction_id = ''t'', from_account_id = ''acc1-1234'',
            to_account_id = ''acc5-7890'',
            transfer_amount = Finite (1080863910568919 / 18014398509481984),
            timestamp = ''n''\<rparr>],
        lock_events = [Mutate, Mutate, Acquire, Mutate, Release]\<rparr>)"
  by (simp add: execute_transfer_def get_account_def update_balance_def add_transfer_def
      Database_init_def ACCOUNTS_def float_eval)

section \<open>Successful transfers\<close>

text \<open>
  C1. In a store that satisfies the representation invariant, for existing accounts with
  distinct identifiers \<open>A\<close> and \<open>B\<close> and an amount with \<open>amount <= A.balance\<close>,
  \<open>execute_transfer\<close> succeeds and appends exactly one transfer record, with that amount,
  from \<open>A\<close> to \<open>B\<close>. The balance of \<open>A\<close> becomes the float sum of the old balance and
  the negated amount, the balance of \<open>B\<close> the float sum of the old balance and the amount:
  for finite values the float nearest to the exact difference and to the exact sum, each
  within one rounding error of it.
\<close>

theorem transfer_succeeds:
  assumes "db_inv db"
    and "get_account db A = Some accA" and "get_account db B = Some accB"
    and "A \<noteq> B" and "fle amount (a_balance accA)"
  shows "let t = \<lparr>transaction_id = transfer_id, from_account_id = A, to_account_id = B,
                  transfer_amount = amount, timestamp = now\<rparr>;
             db' = snd (execute_transfer db A B amount transfer_id now)
         in fst (execute_transfer db A B amount transfer_id now) = Inr t
          \<and> get_balance db' A = Inr (fadd (a_balance accA) (fneg amount))
          \<and> get_balance db' B = Inr (fadd (a_balance accB) amount)
          \<and> transfers db' = transfers db @ [t]
          \<and> (\<forall>x y r. a_balance accA = Finite x \<and> amount = Finite y
                \<and> get_balance db' A = Inr (Finite r)
                \<longrightarrow> \<bar>r - (x - y)\<bar> \<le> \<bar>x - y\<bar> / 2 ^ 53 + 1 / 2 ^ 1075)
          \<and> (\<forall>z y r. a_balance accB = Finite z \<and> amount = Finite y
                \<and> get_balance db' B = Inr (Finite r)
                \<longrightarrow> \<bar>r - (z + y)\<bar> \<le> \<bar>z + y\<bar> / 2 ^ 53 + 1 / 2 ^ 1075)"
proof -
  have ne: "accA \<noteq> accB"
    using assms(1-4) by (rule db_inv_distinct_accounts)
  have ok: "\<not> fless (a_balance accA) amount"
    using assms(5) by (rule fle_imp_not_fless)
  note run = execute_transfer_success [OF assms(2,3) ne ok, of transfer_id now]
  have balA: "get_balance (snd (execute_transfer db A B amount transfer_id now)) A
      = Inr (fadd (a_balance accA) (fneg amount))"
    using assms(2,4)
    by (simp add: run get_balance_def Database_get_balance_def get_account_add_transfer
        get_account_update_balance)
  have balB: "get_balance (snd (execute_transfer db A B amount transfer_id now)) B
      = Inr (fadd (a_balance accB) amount)"
    using assms(3,4)
    by (simp add: run get_balance_def Database_get_balance_def get_account_add_transfer
        get_account_update_balance)
  have errA: "\<bar>r - (x - y)\<bar> \<le> \<bar>x - y\<bar> / 2 ^ 53 + 1 / 2 ^ 1075"
    if "a_balance accA = Finite x" "amount = Finite y"
      "get_balance (snd (execute_transfer db A B amount transfer_id now)) A = Inr (Finite r)"
    for x y r
  proof -
    from that balA have "round_double (x - y) = Finite r" by simp
    then show ?thesis by (rule round_double_error)
  qed
  have errB: "\<bar>r - (z + y)\<bar> \<le> \<bar>z + y\<bar> / 2 ^ 53 + 1 / 2 ^ 1075"
    if "a_balance accB = Finite z" "amount = Finite y"
      "get_balance (snd (execute_transfer db A B amount transfer_id now)) B = Inr (Finite r)"
    for z y r
  proof -
    from that balB have "round_double (z + y) = Finite r" by simp
    then show ?thesis by (rule round_double_error)
  qed
  have tr: "transfers (snd (execute_transfer db A B amount transfer_id now))
      = transfers db @ [\<lparr>transaction_id = transfer_id, from_account_id = A, to_account_id = B,
                  transfer_amount = amount, timestamp = now\<rparr>]"
    by (simp add: run transfers_add_transfer transfers_update_balance)
  have res: "fst (execute_transfer db A B amount transfer_id now)
      = Inr \<lparr>transaction_id = transfer_id, from_account_id = A, to_account_id = B,
                  transfer_amount = amount, timestamp = now\<rparr>"
    by (simp add: run)
  show ?thesis
    unfolding Let_def using res balA balB tr errA errB by blast
qed

theorem transfer_succeeds_witness:
  "db_inv Database_init
   \<and> get_account Database_init ''acc1-1234'' \<noteq> None
   \<and> get_account Database_init ''acc2-5678'' \<noteq> None
   \<and> fle (Finite 1000) (Finite 1000)
   \<and> fst (execute_transfer Database_init ''acc1-1234'' ''acc2-5678'' (Finite 1000) ''t'' ''n'')
       = Inr \<lparr>transaction_id = ''t'', from_account_id = ''acc1-1234'',
              to_account_id = ''acc2-5678'', transfer_amount = Finite 1000, timestamp = ''n''\<rparr>
   \<and> get_balance
        (snd (execute_transfer Database_init ''acc1-1234'' ''acc2-5678'' (Finite 1000) ''t'' ''n''))
        ''acc1-1234'' = Inr (Finite 0)
   \<and> get_balance
        (snd (execute_transfer Database_init ''acc1-1234'' ''acc2-5678'' (Finite 1000) ''t'' ''n''))
        ''acc2-5678'' = Inr (Finite 1500)
   \<and> transfers
        (snd (execute_transfer Database_init ''acc1-1234'' ''acc2-5678'' (Finite 1000) ''t'' ''n''))
       = TRANSFERS @ [\<lparr>transaction_id = ''t'', from_account_id = ''acc1-1234'',
              to_account_id = ''acc2-5678'', transfer_amount = Finite 1000, timestamp = ''n''\<rparr>]
   \<and> \<bar>1500 - (500 + 1000)\<bar> \<le> \<bar>500 + 1000 :: real\<bar> / 2 ^ 53 + 1 / 2 ^ 1075"
proof -
  have le: "fle (Finite 1000)
      (a_balance \<lparr>a_id = Some ''acc1-1234'', a_account_id = None, a_customer_id = 1,
               a_balance = Finite 1000\<rparr>)"
    by simp
  have n: "''acc1-1234'' \<noteq> ''acc2-5678''" by simp
  have ra: "round_double (1000 + - 1000) = Finite 0" by (simp add: float_eval)
  have rb: "round_double (500 + 1000) = Finite 1500" by (simp add: float_eval)
  have tr: "transfers Database_init = TRANSFERS" by (simp add: Database_init_def)
  note T = transfer_succeeds [OF db_inv_init seed_acc1 seed_acc2 n le, of "''t''" "''n''",
      unfolded Let_def]
  from T have res: "fst (execute_transfer Database_init ''acc1-1234'' ''acc2-5678'' (Finite 1000) ''t'' ''n'')
       = Inr \<lparr>transaction_id = ''t'', from_account_id = ''acc1-1234'',
              to_account_id = ''acc2-5678'', transfer_amount = Finite 1000, timestamp = ''n''\<rparr>"
    by blast
  from T have ga: "get_balance
        (snd (execute_transfer Database_init ''acc1-1234'' ''acc2-5678'' (Finite 1000) ''t'' ''n''))
        ''acc1-1234'' = Inr (Finite 0)"
    using ra by simp
  from T have gb: "get_balance
        (snd (execute_transfer Database_init ''acc1-1234'' ''acc2-5678'' (Finite 1000) ''t'' ''n''))
        ''acc2-5678'' = Inr (Finite 1500)"
    using rb by simp
  from T have t: "transfers
        (snd (execute_transfer Database_init ''acc1-1234'' ''acc2-5678'' (Finite 1000) ''t'' ''n''))
       = TRANSFERS @ [\<lparr>transaction_id = ''t'', from_account_id = ''acc1-1234'',
              to_account_id = ''acc2-5678'', transfer_amount = Finite 1000, timestamp = ''n''\<rparr>]"
    using tr by simp
  from T have "\<forall>z y r. Finite 500 = Finite z \<and> Finite 1000 = Finite y
                \<and> get_balance
        (snd (execute_transfer Database_init ''acc1-1234'' ''acc2-5678'' (Finite 1000) ''t'' ''n''))
        ''acc2-5678'' = Inr (Finite r)
                \<longrightarrow> \<bar>r - (z + y)\<bar> \<le> \<bar>z + y\<bar> / 2 ^ 53 + 1 / 2 ^ 1075"
    by simp
  with gb have e: "\<bar>1500 - (500 + 1000)\<bar> \<le> \<bar>500 + 1000 :: real\<bar> / 2 ^ 53 + 1 / 2 ^ 1075"
    by blast
  from db_inv_init seed_acc1 seed_acc2 res ga gb t e show ?thesis by simp
qed

text \<open>
  The balances do not always change by exactly the amount. A transfer of 64.07 (the float
  nearest to it) from the seeded account with balance 1000 to the one with balance 500
  stores 935.9300000000001 and 564.0699999999999, which are not 1000 and 500 minus and
  plus the amount.
\<close>

theorem transfer_succeeds_counterexample:
  "valid_TransferRequest
       \<lparr>req_from_account_id = ''acc1-1234'', req_to_account_id = ''acc2-5678'',
         req_transfer_amount = Finite (1127131359865733 / 17592186044416)\<rparr>
   \<and> get_balance Database_init ''acc1-1234'' = Inr (Finite 1000)
   \<and> get_balance Database_init ''acc2-5678'' = Inr (Finite 500)
   \<and> fle (Finite (1127131359865733 / 17592186044416)) (Finite 1000)
   \<and> get_balance
        (snd (execute_transfer Database_init ''acc1-1234'' ''acc2-5678''
               (Finite (1127131359865733 / 17592186044416)) ''t'' ''n''))
        ''acc1-1234'' = Inr (Finite (4116263671137567 / 4398046511104))
   \<and> get_balance
        (snd (execute_transfer Database_init ''acc1-1234'' ''acc2-5678''
               (Finite (1127131359865733 / 17592186044416)) ''t'' ''n''))
        ''acc2-5678'' = Inr (Finite (2480806095518433 / 4398046511104))
   \<and> (4116263671137567 / 4398046511104 :: real) \<noteq> 1000 - 1127131359865733 / 17592186044416
   \<and> (2480806095518433 / 4398046511104 :: real) \<noteq> 500 + 1127131359865733 / 17592186044416"
proof -
  have v: "valid_TransferRequest
       \<lparr>req_from_account_id = ''acc1-1234'', req_to_account_id = ''acc2-5678'',
         req_transfer_amount = Finite (1127131359865733 / 17592186044416)\<rparr>"
    by (simp add: valid_TransferRequest_def check_amount_precision_def float_eval)
  have a: "get_account Database_init ''acc1-1234''
      = Some \<lparr>a_id = Some ''acc1-1234'', a_account_id = None, a_customer_id = 1,
               a_balance = Finite 1000\<rparr>"
    by (simp add: get_account_def Database_init_def ACCOUNTS_def)
  have b: "get_account Database_init ''acc2-5678''
      = Some \<lparr>a_id = Some ''acc2-5678'', a_account_id = None, a_customer_id = 2,
               a_balance = Finite 500\<rparr>"
    by (simp add: get_account_def Database_init_def ACCOUNTS_def)
  have ra: "round_double (1000 + - (1127131359865733 / 17592186044416))
      = Finite (4116263671137567 / 4398046511104)"
    by (simp add: float_eval)
  have rb: "round_double (500 + 1127131359865733 / 17592186044416)
      = Finite (2480806095518433 / 4398046511104)"
    by (simp add: float_eval)
  have run: "execute_transfer Database_init ''acc1-1234'' ''acc2-5678''
               (Finite (1127131359865733 / 17592186044416)) ''t'' ''n''
     = (Inr \<lparr>transaction_id = ''t'', from_account_id = ''acc1-1234'',
             to_account_id = ''acc2-5678'',
             transfer_amount = Finite (1127131359865733 / 17592186044416),
             timestamp = ''n''\<rparr>,
        add_transfer
          (update_balance
             (update_balance Database_init ''acc1-1234''
                (fneg (Finite (1127131359865733 / 17592186044416))))
             ''acc2-5678'' (Finite (1127131359865733 / 17592186044416)))
          \<lparr>transaction_id = ''t'', from_account_id = ''acc1-1234'',
            to_account_id = ''acc2-5678'',
            transfer_amount = Finite (1127131359865733 / 17592186044416),
            timestamp = ''n''\<rparr>)"
    by (rule execute_transfer_success [OF a b]) simp_all
  have ga: "get_balance
        (snd (execute_transfer Database_init ''acc1-1234'' ''acc2-5678''
               (Finite (1127131359865733 / 17592186044416)) ''t'' ''n''))
        ''acc1-1234'' = Inr (Finite (4116263671137567 / 4398046511104))"
    unfolding run
    by (simp add: get_balance_def Database_get_balance_def get_account_add_transfer
        get_account_update_balance a float_eval)
  have gb: "get_balance
        (snd (execute_transfer Database_init ''acc1-1234'' ''acc2-5678''
               (Finite (1127131359865733 / 17592186044416)) ''t'' ''n''))
        ''acc2-5678'' = Inr (Finite (2480806095518433 / 4398046511104))"
    unfolding run
    by (simp add: get_balance_def Database_get_balance_def get_account_add_transfer
        get_account_update_balance b float_eval)
  have g0: "get_balance Database_init ''acc1-1234'' = Inr (Finite 1000)"
    "get_balance Database_init ''acc2-5678'' = Inr (Finite 500)"
    by (simp_all add: get_balance_def Database_get_balance_def a b)
  have n: "(4116263671137567 / 4398046511104 :: real) \<noteq> 1000 - 1127131359865733 / 17592186044416"
    "(2480806095518433 / 4398046511104 :: real) \<noteq> 500 + 1127131359865733 / 17592186044416"
    by simp_all
  have le: "fle (Finite (1127131359865733 / 17592186044416)) (Finite 1000)" by simp
  from v g0 le ga gb n show ?thesis by blast
qed

text \<open>
  C2. For existing accounts with distinct identifiers and an amount above the balance of the
  source, \<open>execute_transfer\<close> raises \<open>InsufficientFundsException\<close> and leaves the whole
  store, hence both balances, unchanged.
\<close>

theorem insufficient_funds_rejected:
  assumes "db_inv db"
    and "get_account db A = Some accA" and "get_account db B = Some accB"
    and "A \<noteq> B" and "fless (a_balance accA) amount"
  shows "execute_transfer db A B amount transfer_id now = (Inl InsufficientFundsException, db)"
proof -
  have "accA \<noteq> accB"
    using assms(1-4) by (rule db_inv_distinct_accounts)
  with assms(2,3,5) show ?thesis
    by (simp add: execute_transfer_def)
qed

theorem insufficient_funds_rejected_witness:
  "db_inv Database_init
   \<and> fless (Finite 500) (Finite 500.5)
   \<and> execute_transfer Database_init ''acc2-5678'' ''acc1-1234'' (Finite 500.5) ''t'' ''n''
       = (Inl InsufficientFundsException, Database_init)"
proof -
  have n: "''acc2-5678'' \<noteq> ''acc1-1234''" by simp
  have lt: "fless
      (a_balance \<lparr>a_id = Some ''acc2-5678'', a_account_id = None, a_customer_id = 2,
               a_balance = Finite 500\<rparr>) (Finite 500.5)"
    by simp
  from insufficient_funds_rejected [OF db_inv_init seed_acc2 seed_acc1 n lt, of "''t''" "''n''"]
    db_inv_init
  show ?thesis by simp
qed

text \<open>
  C3. A successful \<open>execute_transfer\<close> between finite balances that leaves the balances
  finite changes the sum of all balances by no more than the two rounding errors of the
  debit and of the credit, and leaves the sum unchanged when the exact difference and the
  exact sum are floats.
\<close>

theorem transfer_preserves_total:
  assumes "db_inv db" and "finite_balances db"
    and "fst (execute_transfer db from_id to_id amount transfer_id now) = Inr t"
    and "finite_balances (snd (execute_transfer db from_id to_id amount transfer_id now))"
    and "get_account db from_id = Some accA" and "get_account db to_id = Some accB"
    and "a_balance accA = Finite x" and "a_balance accB = Finite z" and "amount = Finite y"
  shows "\<bar>total_balance (snd (execute_transfer db from_id to_id amount transfer_id now))
          - total_balance db\<bar>
           \<le> (\<bar>x - y\<bar> + \<bar>z + y\<bar>) / 2 ^ 53 + 1 / 2 ^ 1074
       \<and> (round_double (x - y) = Finite (x - y) \<and> round_double (z + y) = Finite (z + y)
            \<longrightarrow> total_balance (snd (execute_transfer db from_id to_id amount transfer_id now))
                = total_balance db)"
proof -
  let ?db' = "snd (execute_transfer db from_id to_id amount transfer_id now)"
  from assms(3) obtain accA' accB' where
    A': "get_account db from_id = Some accA'" and B': "get_account db to_id = Some accB'"
    and ne': "accA' \<noteq> accB'" and ok': "\<not> fless (a_balance accA') amount"
    and ids: "from_id \<noteq> to_id"
    by (rule execute_transfer_successD)
  from A' B' assms(5,6) have [simp]: "accA' = accA" "accB' = accB" by simp_all
  from ne' ok' have ne: "accA \<noteq> accB" and ok: "\<not> fless (a_balance accA) amount" by simp_all
  note run = execute_transfer_success [OF assms(5,6) ne ok, of transfer_id now]
  have d: "distinct (map fst (accounts db))"
    using assms(1) by (simp add: db_inv_def)
  let ?db1 = "update_balance db from_id (fneg amount)"
  have t1: "total_balance ?db1 = total_balance db - x + real_of_double (round_double (x - y))"
    using total_update_balance [OF d assms(5), of "fneg amount"] assms(7,9) by simp
  have B1: "get_account ?db1 to_id = Some accB"
    using assms(6) ids by (simp add: get_account_update_balance)
  have t2: "total_balance (update_balance ?db1 to_id amount)
      = total_balance ?db1 - z + real_of_double (round_double (z + y))"
    using total_update_balance [OF distinct_update_balance [OF d] B1, of amount] assms(8,9)
    by simp
  have tot: "total_balance ?db' = total_balance db
      + (real_of_double (round_double (x - y)) - (x - y))
      + (real_of_double (round_double (z + y)) - (z + y))"
    using t1 t2 by (simp add: run total_add_transfer)
  have "get_account ?db' from_id
      = Some (accA\<lparr>a_balance := fadd (a_balance accA) (fneg amount)\<rparr>)"
    unfolding run using assms(5) ids
    by (simp add: get_account_add_transfer get_account_update_balance)
  then have gA: "get_account ?db' from_id = Some (accA\<lparr>a_balance := round_double (x - y)\<rparr>)"
    using assms(7,9) by simp
  have "get_account ?db' to_id = Some (accB\<lparr>a_balance := fadd (a_balance accB) amount\<rparr>)"
    unfolding run using assms(6) ids
    by (simp add: get_account_add_transfer get_account_update_balance)
  then have gB: "get_account ?db' to_id = Some (accB\<lparr>a_balance := round_double (z + y)\<rparr>)"
    using assms(8,9) by simp
  from finite_balances_lookup [OF assms(4) gA] obtain r1 where r1: "round_double (x - y) = Finite r1"
    by auto
  from finite_balances_lookup [OF assms(4) gB] obtain r2 where r2: "round_double (z + y) = Finite r2"
    by auto
  have e1: "\<bar>r1 - (x - y)\<bar> \<le> \<bar>x - y\<bar> / 2 ^ 53 + 1 / 2 ^ 1075"
    using r1 by (rule round_double_error)
  have e2: "\<bar>r2 - (z + y)\<bar> \<le> \<bar>z + y\<bar> / 2 ^ 53 + 1 / 2 ^ 1075"
    using r2 by (rule round_double_error)
  have half: "(1::real) / 2 ^ 1075 + 1 / 2 ^ 1075 = 1 / 2 ^ 1074" by simp
  have "\<bar>total_balance ?db' - total_balance db\<bar> = \<bar>(r1 - (x - y)) + (r2 - (z + y))\<bar>"
    using tot r1 r2 by simp
  also have "\<dots> \<le> \<bar>r1 - (x - y)\<bar> + \<bar>r2 - (z + y)\<bar>" by (rule abs_triangle_ineq)
  also have "\<dots> \<le> (\<bar>x - y\<bar> / 2 ^ 53 + 1 / 2 ^ 1075) + (\<bar>z + y\<bar> / 2 ^ 53 + 1 / 2 ^ 1075)"
    using e1 e2 by (rule add_mono)
  also have "\<dots> = (\<bar>x - y\<bar> + \<bar>z + y\<bar>) / 2 ^ 53 + 1 / 2 ^ 1074"
    using half by (simp add: add_divide_distrib)
  finally have bound: "\<bar>total_balance ?db' - total_balance db\<bar>
      \<le> (\<bar>x - y\<bar> + \<bar>z + y\<bar>) / 2 ^ 53 + 1 / 2 ^ 1074" .
  have exact: "total_balance ?db' = total_balance db"
    if "round_double (x - y) = Finite (x - y)" "round_double (z + y) = Finite (z + y)"
    using tot that by simp
  from bound exact show ?thesis by blast
qed

theorem transfer_preserves_total_witness:
  "db_inv Database_init \<and> finite_balances Database_init
   \<and> fst (execute_transfer Database_init ''acc1-1234'' ''acc5-7890''
               (Finite (1080863910568919 / 18014398509481984)) ''t'' ''n'')
       = Inr \<lparr>transaction_id = ''t'', from_account_id = ''acc1-1234'',
              to_account_id = ''acc5-7890'',
              transfer_amount = Finite (1080863910568919 / 18014398509481984),
              timestamp = ''n''\<rparr>
   \<and> finite_balances
        (snd (execute_transfer Database_init ''acc1-1234'' ''acc5-7890''
               (Finite (1080863910568919 / 18014398509481984)) ''t'' ''n''))
   \<and> \<bar>total_balance
        (snd (execute_transfer Database_init ''acc1-1234'' ''acc5-7890''
               (Finite (1080863910568919 / 18014398509481984)) ''t'' ''n''))
       - total_balance Database_init\<bar>
      \<le> (\<bar>1000 - 1080863910568919 / 18014398509481984\<bar>
          + \<bar>250 + 1080863910568919 / 18014398509481984\<bar>) / 2 ^ 53 + 1 / 2 ^ 1074"
proof -
  let ?run = "execute_transfer Database_init ''acc1-1234'' ''acc5-7890''
               (Finite (1080863910568919 / 18014398509481984)) ''t'' ''n''"
  have s: "fst ?run = Inr \<lparr>transaction_id = ''t'', from_account_id = ''acc1-1234'',
           to_account_id = ''acc5-7890'',
           transfer_amount = Finite (1080863910568919 / 18014398509481984),
           timestamp = ''n''\<rparr>"
    unfolding seed_transfer_006 by simp
  have f: "finite_balances (snd ?run)"
    unfolding seed_transfer_006 by (simp add: finite_balances_def)
  have x: "a_balance \<lparr>a_id = Some ''acc1-1234'', a_account_id = None, a_customer_id = 1,
               a_balance = Finite 1000\<rparr> = Finite 1000"
    by simp
  have z: "a_balance \<lparr>a_id = Some ''acc5-7890'', a_account_id = None, a_customer_id = 1,
               a_balance = Finite 250\<rparr> = Finite 250"
    by simp
  from transfer_preserves_total [OF db_inv_init finite_balances_init s f seed_acc1 seed_acc5
      x z refl]
    db_inv_init finite_balances_init s f
  show ?thesis by blast
qed

text \<open>
  The sum is not always unchanged: a transfer of 0.06 between the seeded accounts with
  balances 1000 and 250 raises the sum of all balances by \<open>2^-44\<close>.
\<close>

theorem transfer_preserves_total_counterexample:
  "valid_TransferRequest
       \<lparr>req_from_account_id = ''acc1-1234'', req_to_account_id = ''acc5-7890'',
         req_transfer_amount = Finite (1080863910568919 / 18014398509481984)\<rparr>
   \<and> fst (execute_transfer Database_init ''acc1-1234'' ''acc5-7890''
               (Finite (1080863910568919 / 18014398509481984)) ''t'' ''n'')
       = Inr \<lparr>transaction_id = ''t'', from_account_id = ''acc1-1234'',
              to_account_id = ''acc5-7890'',
              transfer_amount = Finite (1080863910568919 / 18014398509481984),
              timestamp = ''n''\<rparr>
   \<and> total_balance Database_init = 4501.25
   \<and> total_balance
        (snd (execute_transfer Database_init ''acc1-1234'' ''acc5-7890''
               (Finite (1080863910568919 / 18014398509481984)) ''t'' ''n''))
       = 4501.25 + 1 / 2 ^ 44
   \<and> total_balance
        (snd (execute_transfer Database_init ''acc1-1234'' ''acc5-7890''
               (Finite (1080863910568919 / 18014398509481984)) ''t'' ''n''))
       \<noteq> total_balance Database_init"
proof -
  have v: "valid_TransferRequest
       \<lparr>req_from_account_id = ''acc1-1234'', req_to_account_id = ''acc5-7890'',
         req_transfer_amount = Finite (1080863910568919 / 18014398509481984)\<rparr>"
    by (simp add: valid_TransferRequest_def check_amount_precision_def float_eval)
  have t: "total_balance
        (snd (execute_transfer Database_init ''acc1-1234'' ''acc5-7890''
               (Finite (1080863910568919 / 18014398509481984)) ''t'' ''n''))
       = 4501.25 + 1 / 2 ^ 44"
    unfolding seed_transfer_006 by (simp add: total_balance_def)
  have "(4501.25 + 1 / 2 ^ 44 :: real) \<noteq> 4501.25" by simp
  with v t total_balance_init show ?thesis
    unfolding seed_transfer_006 by simp
qed

section \<open>Failing transfers\<close>

text \<open>
  C8. For every existing account \<open>A\<close> and every amount, \<open>execute_transfer\<close> from \<open>A\<close> to
  \<open>A\<close> raises \<open>SelfTransferException\<close> and leaves the store, hence every balance, as it
  was; the route \<open>transfer_amount\<close> answers the same request in the same way.
\<close>

theorem self_transfer_rejected:
  assumes "get_account db A = Some acc"
  shows "execute_transfer db A A amount transfer_id now = (Inl SelfTransferException, db)
       \<and> route_transfer_amount db
           \<lparr>req_from_account_id = A, req_to_account_id = A, req_transfer_amount = amount\<rparr>
           transfer_id now = (Inl SelfTransferException, db)"
  using assms by (simp add: execute_transfer_def route_transfer_amount_def)

theorem self_transfer_rejected_witness:
  "get_account Database_init ''acc1-1234'' \<noteq> None
   \<and> execute_transfer Database_init ''acc1-1234'' ''acc1-1234'' (Finite 50) ''t'' ''n''
       = (Inl SelfTransferException, Database_init)"
proof -
  have h: "get_account Database_init ''acc1-1234''
      = Some \<lparr>a_id = Some ''acc1-1234'', a_account_id = None, a_customer_id = 1, a_balance = Finite 1000\<rparr>"
    by (simp add: get_account_def Database_init_def ACCOUNTS_def)
  from self_transfer_rejected [OF h, of "Finite 50" "''t''" "''n''"] h show ?thesis by simp
qed

text \<open>
  C10. Whenever \<open>execute_transfer\<close> raises, whatever the exception, the store it leaves
  is the store it was given: no balance is modified and no transfer is appended.
\<close>

theorem failed_transfer_leaves_store:
  assumes "fst (execute_transfer db from_id to_id amount transfer_id now) = Inl e"
  shows "snd (execute_transfer db from_id to_id amount transfer_id now) = db"
  using assms
  by (auto simp: execute_transfer_def Let_def split: option.splits if_splits)

theorem failed_transfer_leaves_store_witness:
  "fst (execute_transfer Database_init ''acc1-1234'' ''nobody'' (Finite 50) ''t'' ''n'')
     = Inl AccountNotFoundException
   \<and> snd (execute_transfer Database_init ''acc1-1234'' ''nobody'' (Finite 50) ''t'' ''n'')
     = Database_init"
proof -
  have h: "fst (execute_transfer Database_init ''acc1-1234'' ''nobody'' (Finite 50) ''t'' ''n'')
     = Inl AccountNotFoundException"
    by (simp add: execute_transfer_def get_account_def Database_init_def ACCOUNTS_def)
  from failed_transfer_leaves_store [OF h] h show ?thesis by simp
qed

text \<open>
  C5. A transfer whose source and destination identifiers are equal and name no account:
  \<open>execute_transfer\<close> looks both accounts up first and raises
  \<open>AccountNotFoundException\<close>, but the route \<open>transfer_amount\<close> compares the two
  identifiers before it calls the service and raises \<open>SelfTransferException\<close>. Neither
  changes the store.
\<close>

theorem missing_account_self_transfer:
  assumes "get_account db A = None"
  shows "execute_transfer db A A amount transfer_id now = (Inl AccountNotFoundException, db)
       \<and> route_transfer_amount db
           \<lparr>req_from_account_id = A, req_to_account_id = A, req_transfer_amount = amount\<rparr>
           transfer_id now = (Inl SelfTransferException, db)"
  using assms by (simp add: execute_transfer_def route_transfer_amount_def)

theorem missing_account_self_transfer_witness:
  "get_account Database_init ''acc9-0000'' = None
   \<and> execute_transfer Database_init ''acc9-0000'' ''acc9-0000'' (Finite 25) ''t'' ''n''
       = (Inl AccountNotFoundException, Database_init)
   \<and> route_transfer_amount Database_init
       \<lparr>req_from_account_id = ''acc9-0000'', req_to_account_id = ''acc9-0000'',
         req_transfer_amount = Finite 25\<rparr> ''t'' ''n''
       = (Inl SelfTransferException, Database_init)"
proof -
  have h: "get_account Database_init ''acc9-0000'' = None"
    by (simp add: get_account_def Database_init_def ACCOUNTS_def)
  from missing_account_self_transfer [OF h, of "Finite 25" "''t''" "''n''"] h show ?thesis by simp
qed

text \<open>
  The transfer operation as a client reaches it therefore does not answer such a request
  with \<open>AccountNotFoundException\<close>.
\<close>

theorem missing_account_self_transfer_counterexample:
  "get_account Database_init ''nobody'' = None
   \<and> valid_TransferRequest
       \<lparr>req_from_account_id = ''nobody'', req_to_account_id = ''nobody'', req_transfer_amount = Finite 50\<rparr>
   \<and> fst (post_transfers Database_init
       \<lparr>req_from_account_id = ''nobody'', req_to_account_id = ''nobody'', req_transfer_amount = Finite 50\<rparr>
       ''t'' ''n'') = Inl SelfTransferException
   \<and> fst (post_transfers Database_init
       \<lparr>req_from_account_id = ''nobody'', req_to_account_id = ''nobody'', req_transfer_amount = Finite 50\<rparr>
       ''t'' ''n'') \<noteq> Inl AccountNotFoundException"
  by (simp add: get_account_def Database_init_def ACCOUNTS_def valid_TransferRequest_def
      check_amount_precision_def check_deposit_precision_def float_eval post_transfers_def route_transfer_amount_def)

section \<open>Account creation\<close>

text \<open>
  C6. \<open>create_account\<close> for a customer that is not in the store raises
  \<open>CustomerNotFoundException\<close> and leaves the store as it was. For an existing customer it
  returns an account with the deposit as its balance, stored under the identifier
  \<open>"acc-"\<close> followed by the first eight digits of the UUID drawn; every other identifier
  keeps the account it had, customers and transfers are untouched, and a later call returns
  a different identifier exactly when the first eight digits of its UUID differ.
\<close>

theorem create_account_result:
  "(get_customer db cid = None \<longrightarrow>
      create_account db cid dep u = (Inl CustomerNotFoundException, db))
   \<and> (get_customer db cid \<noteq> None \<longrightarrow>
      (let account_id = ''acc-'' @ take 8 u;
           account = \<lparr>a_id = None, a_account_id = Some account_id,
                      a_customer_id = cid, a_balance = dep\<rparr>;
           db' = snd (create_account db cid dep u)
       in fst (create_account db cid dep u) = Inr account
        \<and> get_account db' account_id = Some account
        \<and> (\<forall>k. k \<noteq> account_id \<longrightarrow> get_account db' k = get_account db k)
        \<and> customers db' = customers db \<and> transfers db' = transfers db
        \<and> (\<forall>cid2 dep2 u2 account2.
              fst (create_account db' cid2 dep2 u2) = Inr account2 \<longrightarrow>
              (a_account_id account2 \<noteq> a_account_id account) = (take 8 u2 \<noteq> take 8 u))))"
proof (intro conjI impI)
  assume "get_customer db cid = None"
  then show "create_account db cid dep u = (Inl CustomerNotFoundException, db)"
    by (simp add: create_account_def)
next
  assume "get_customer db cid \<noteq> None"
  then obtain c where c: "get_customer db cid = Some c" by auto
  have r: "create_account db cid dep u =
      (Inr (fst (Database_create_account db cid dep u)),
       snd (Database_create_account db cid dep u))"
    using c by (simp add: create_account_def split_def Let_def)
  have f: "fst (Database_create_account db cid dep u) =
      \<lparr>a_id = None, a_account_id = Some (''acc-'' @ take 8 u),
        a_customer_id = cid, a_balance = dep\<rparr>"
    by (simp add: Database_create_account_def Let_def)
  have other: "\<And>db cid2 dep2 u2 account2.
       fst (create_account db cid2 dep2 u2) = Inr account2 \<Longrightarrow>
       a_account_id account2 = Some (''acc-'' @ take 8 u2)"
    by (auto simp: create_account_def Database_create_account_def Let_def split: option.splits)
  show "let account_id = ''acc-'' @ take 8 u;
           account = \<lparr>a_id = None, a_account_id = Some account_id,
                      a_customer_id = cid, a_balance = dep\<rparr>;
           db' = snd (create_account db cid dep u)
       in fst (create_account db cid dep u) = Inr account
        \<and> get_account db' account_id = Some account
        \<and> (\<forall>k. k \<noteq> account_id \<longrightarrow> get_account db' k = get_account db k)
        \<and> customers db' = customers db \<and> transfers db' = transfers db
        \<and> (\<forall>cid2 dep2 u2 account2.
              fst (create_account db' cid2 dep2 u2) = Inr account2 \<longrightarrow>
              (a_account_id account2 \<noteq> a_account_id account) = (take 8 u2 \<noteq> take 8 u))"
    unfolding Let_def r fst_conv snd_conv f
    by (auto simp: get_account_Database_create_account dest!: other)
       (simp_all add: Database_create_account_def Let_def)
qed

theorem create_account_result_witness:
  "get_customer Database_init 999 = None
   \<and> create_account Database_init 999 (Finite 100) ''1234abcd56784abc8def0123456789ab''
       = (Inl CustomerNotFoundException, Database_init)
   \<and> get_customer Database_init 1 \<noteq> None
   \<and> fst (create_account Database_init 1 (Finite 100.5) ''1234abcd56784abc8def0123456789ab'')
       = Inr \<lparr>a_id = None, a_account_id = Some ''acc-1234abcd'', a_customer_id = 1,
              a_balance = Finite 100.5\<rparr>
   \<and> get_account
        (snd (create_account Database_init 1 (Finite 100.5) ''1234abcd56784abc8def0123456789ab''))
        ''acc1-1234''
       = get_account Database_init ''acc1-1234''
   \<and> fst (create_account
        (snd (create_account Database_init 1 (Finite 100.5) ''1234abcd56784abc8def0123456789ab''))
        2 (Finite 50) ''9f8e7d6c5b4a49388271615f4e3d2c1b'')
       = Inr \<lparr>a_id = None, a_account_id = Some ''acc-9f8e7d6c'', a_customer_id = 2,
              a_balance = Finite 50\<rparr>
   \<and> Some ''acc-9f8e7d6c'' \<noteq> Some ''acc-1234abcd''"
proof -
  let ?u = "''1234abcd56784abc8def0123456789ab''"
  let ?u2 = "''9f8e7d6c5b4a49388271615f4e3d2c1b''"
  let ?db1 = "snd (create_account Database_init 1 (Finite 100.5) ?u)"
  let ?acc2 = "\<lparr>a_id = None, a_account_id = Some ''acc-9f8e7d6c'', a_customer_id = 2,
              a_balance = Finite 50\<rparr>"
  have h1: "get_customer Database_init 999 = None"
    by (simp add: get_customer_def Database_init_def CUSTOMERS_def)
  have h2: "get_customer Database_init 1 \<noteq> None"
    by (simp add: get_customer_def Database_init_def CUSTOMERS_def)
  have db1: "?db1 = Database_init\<lparr>accounts := ACCOUNTS @ [(''acc-1234abcd'',
          \<lparr>a_id = None, a_account_id = Some ''acc-1234abcd'', a_customer_id = 1, a_balance = Finite 100.5\<rparr>)],
          lock_events := [Acquire, Mutate, Release]\<rparr>"
    by (simp add: create_account_def get_customer_def Database_create_account_def
        Database_init_def CUSTOMERS_def ACCOUNTS_def Let_def)
  have h3: "fst (create_account ?db1 2 (Finite 50) ?u2) = Inr ?acc2"
    unfolding db1
    by (simp add: create_account_def get_customer_def Database_create_account_def
        Database_init_def CUSTOMERS_def Let_def)
  have absent: "create_account Database_init 999 (Finite 100) ?u = (Inl CustomerNotFoundException, Database_init)"
    using create_account_result [of Database_init 999 "Finite 100" ?u] h1 by simp
  have present: "fst (create_account Database_init 1 (Finite 100.5) ?u)
       = Inr \<lparr>a_id = None, a_account_id = Some ''acc-1234abcd'', a_customer_id = 1,
              a_balance = Finite 100.5\<rparr>
     \<and> get_account ?db1 ''acc1-1234'' = get_account Database_init ''acc1-1234''
     \<and> (fst (create_account ?db1 2 (Finite 50) ?u2) = Inr ?acc2 \<longrightarrow>
          (a_account_id ?acc2 \<noteq> Some ''acc-1234abcd'') = (take 8 ?u2 \<noteq> take 8 ?u))"
    using create_account_result [of Database_init 1 "Finite 100.5" ?u] h2
    by (simp add: Let_def)
  from absent present h1 h2 h3 show ?thesis by simp
qed

text \<open>
  The identifier is not always fresh: two different UUIDs with the same first eight digits
  give the same identifier, and the second account replaces the first.
\<close>

theorem create_account_identifier_counterexample:
  "''1234abcd56784abc8def0123456789ab'' \<noteq> ''1234abcdffff4fffbfffffffffffffff''
   \<and> fst (create_account Database_init 1 (Finite 100.5) ''1234abcd56784abc8def0123456789ab'')
       = Inr \<lparr>a_id = None, a_account_id = Some ''acc-1234abcd'', a_customer_id = 1, a_balance = Finite 100.5\<rparr>
   \<and> fst (create_account
        (snd (create_account Database_init 1 (Finite 100.5) ''1234abcd56784abc8def0123456789ab''))
        2 (Finite 50) ''1234abcdffff4fffbfffffffffffffff'')
       = Inr \<lparr>a_id = None, a_account_id = Some ''acc-1234abcd'', a_customer_id = 2, a_balance = Finite 50\<rparr>
   \<and> get_account (snd (create_account Database_init 1 (Finite 100.5) ''1234abcd56784abc8def0123456789ab''))
        ''acc-1234abcd''
       = Some \<lparr>a_id = None, a_account_id = Some ''acc-1234abcd'', a_customer_id = 1, a_balance = Finite 100.5\<rparr>
   \<and> get_account (snd (create_account
        (snd (create_account Database_init 1 (Finite 100.5) ''1234abcd56784abc8def0123456789ab''))
        2 (Finite 50) ''1234abcdffff4fffbfffffffffffffff'')) ''acc-1234abcd''
       = Some \<lparr>a_id = None, a_account_id = Some ''acc-1234abcd'', a_customer_id = 2, a_balance = Finite 50\<rparr>"
proof -
  have db1: "create_account Database_init 1 (Finite 100.5) ''1234abcd56784abc8def0123456789ab''
     = (Inr \<lparr>a_id = None, a_account_id = Some ''acc-1234abcd'', a_customer_id = 1, a_balance = Finite 100.5\<rparr>,
        Database_init\<lparr>accounts := ACCOUNTS @ [(''acc-1234abcd'',
          \<lparr>a_id = None, a_account_id = Some ''acc-1234abcd'', a_customer_id = 1, a_balance = Finite 100.5\<rparr>)],
          lock_events := [Acquire, Mutate, Release]\<rparr>)"
    by (simp add: create_account_def get_customer_def Database_create_account_def
        Database_init_def CUSTOMERS_def ACCOUNTS_def Let_def)
  show ?thesis
    unfolding db1
    by (simp add: create_account_def get_customer_def get_account_def Database_create_account_def
        Database_init_def CUSTOMERS_def ACCOUNTS_def Let_def)
qed

section \<open>Reachable states\<close>

text \<open>
  C7. In every state reachable from the seed through the two POST operations, with their
  request validation, every balance is non-negative; in particular the state that a
  transfer leaves has no negative balance.
\<close>

theorem reachable_balances_nonneg:
  assumes "reachable db"
  shows "balances_nonneg db
       \<and> balances_nonneg (snd (post_transfers db r transfer_id now))"
proof -
  have "balances_nonneg db"
    using assms
    by (induction rule: reachable.induct)
       (simp_all add: balances_nonneg_init balances_nonneg_post_accounts
          balances_nonneg_post_transfers)
  then show ?thesis by (simp add: balances_nonneg_post_transfers)
qed

theorem reachable_balances_nonneg_witness:
  "reachable Database_init
   \<and> balances_nonneg Database_init
   \<and> valid_TransferRequest
       \<lparr>req_from_account_id = ''acc1-1234'', req_to_account_id = ''acc2-5678'',
         req_transfer_amount = Finite (1127131359865733 / 17592186044416)\<rparr>
   \<and> balances_nonneg (snd (post_transfers Database_init
       \<lparr>req_from_account_id = ''acc1-1234'', req_to_account_id = ''acc2-5678'',
         req_transfer_amount = Finite (1127131359865733 / 17592186044416)\<rparr> ''t'' ''n''))
   \<and> get_balance (snd (post_transfers Database_init
       \<lparr>req_from_account_id = ''acc1-1234'', req_to_account_id = ''acc2-5678'',
         req_transfer_amount = Finite (1127131359865733 / 17592186044416)\<rparr> ''t'' ''n''))
       ''acc1-1234'' = Inr (Finite (4116263671137567 / 4398046511104))"
proof -
  let ?r = "\<lparr>req_from_account_id = ''acc1-1234'', req_to_account_id = ''acc2-5678'',
         req_transfer_amount = Finite (1127131359865733 / 17592186044416)\<rparr>"
  have v: "valid_TransferRequest ?r"
    by (simp add: valid_TransferRequest_def check_amount_precision_def float_eval)
  have b: "get_balance (snd (post_transfers Database_init ?r ''t'' ''n''))
       ''acc1-1234'' = Inr (Finite (4116263671137567 / 4398046511104))"
    using v
    by (simp add: post_transfers_def route_transfer_amount_def execute_transfer_def
        get_account_def Database_init_def ACCOUNTS_def get_balance_def
        Database_get_balance_def update_balance_def add_transfer_def float_eval)
  from reachable_balances_nonneg [OF reachable_init, of ?r "''t''" "''n''"] reachable_init v b
  show ?thesis by simp
qed

section \<open>Transfers of a customer\<close>

text \<open>
  C4. \<open>get_transfers_by_customer\<close> reads the key \<open>"id"\<close> of each of the customer's
  accounts. An account built by \<open>create_account\<close> has the key \<open>"account_id"\<close> instead:
  once an existing customer owns such an account, the call raises \<open>KeyError\<close> and returns
  no transfers.
\<close>

theorem get_transfers_by_customer_created_account:
  "reachable (snd (post_accounts Database_init
       \<lparr>ac_customer_id = 1, ac_initial_deposit = Finite 100.5\<rparr> ''1234abcd56784abc8def0123456789ab''))
   \<and> get_customer (snd (post_accounts Database_init
       \<lparr>ac_customer_id = 1, ac_initial_deposit = Finite 100.5\<rparr> ''1234abcd56784abc8def0123456789ab'')) 1 \<noteq> None
   \<and> get_transfers_by_customer (snd (post_accounts Database_init
       \<lparr>ac_customer_id = 1, ac_initial_deposit = Finite 100.5\<rparr> ''1234abcd56784abc8def0123456789ab'')) 1
     = Inl KeyError"
proof -
  let ?db1 = "snd (post_accounts Database_init
       \<lparr>ac_customer_id = 1, ac_initial_deposit = Finite 100.5\<rparr> ''1234abcd56784abc8def0123456789ab'')"
  have r: "reachable ?db1"
    by (rule reachable_post_accounts) (rule reachable_init)
  have v: "valid_AccountCreate \<lparr>ac_customer_id = 1, ac_initial_deposit = Finite 100.5\<rparr>"
    by (simp add: valid_AccountCreate_def check_amount_precision_def check_deposit_precision_def float_eval)
  have db1: "?db1 = Database_init\<lparr>accounts := ACCOUNTS @ [(''acc-1234abcd'',
       \<lparr>a_id = None, a_account_id = Some ''acc-1234abcd'', a_customer_id = 1, a_balance = Finite 100.5\<rparr>)],
       lock_events := [Acquire, Mutate, Release]\<rparr>"
    using v
    by (simp add: post_accounts_def route_create_account_def create_account_def
        get_customer_def Database_create_account_def Database_init_def CUSTOMERS_def
        ACCOUNTS_def Let_def)
  have c: "get_customer ?db1 1 \<noteq> None"
    unfolding db1 by (simp add: get_customer_def Database_init_def CUSTOMERS_def)
  have k: "get_transfers_by_customer ?db1 1 = Inl KeyError"
    unfolding db1
    by (simp add: get_transfers_by_customer_def get_accounts_by_customer_def
        Database_init_def CUSTOMERS_def ACCOUNTS_def)
  from r c k show ?thesis by simp
qed

section \<open>Locking\<close>

text \<open>
  C9. \<open>create_account\<close> and \<open>add_transfer\<close> mutate the store inside
  \<open>with self.lock\<close>; \<open>update_balance\<close> mutates a balance without taking the lock, so
  the two balance updates of a transfer are not guarded.
\<close>

theorem update_balance_takes_no_lock:
  "lock_events (snd (execute_transfer Database_init ''acc1-1234'' ''acc2-5678'' (Finite 100) ''t'' ''n''))
     = [Mutate, Mutate, Acquire, Mutate, Release]
   \<and> \<not> guarded False
       (lock_events (snd (execute_transfer Database_init ''acc1-1234'' ''acc2-5678'' (Finite 100) ''t'' ''n'')))
   \<and> \<not> guarded False (lock_events (update_balance Database_init ''acc1-1234'' (fneg (Finite 100))))
   \<and> guarded False (lock_events (add_transfer Database_init (hd TRANSFERS)))
   \<and> guarded False (lock_events (snd (Database_create_account Database_init 1 (Finite 100.5)
        ''1234abcd56784abc8def0123456789ab'')))"
proof -
  have e: "lock_events (snd (execute_transfer Database_init ''acc1-1234'' ''acc2-5678'' (Finite 100) ''t'' ''n''))
     = [Mutate, Mutate, Acquire, Mutate, Release]"
    by (simp add: execute_transfer_def get_account_def update_balance_def add_transfer_def
        Database_init_def ACCOUNTS_def Let_def)
  have u: "lock_events (update_balance Database_init ''acc1-1234'' (fneg (Finite 100))) = [Mutate]"
    by (simp add: update_balance_def Database_init_def ACCOUNTS_def)
  have a: "lock_events (add_transfer Database_init (hd TRANSFERS)) = [Acquire, Mutate, Release]"
    by (simp add: add_transfer_def Database_init_def)
  have c: "lock_events (snd (Database_create_account Database_init 1 (Finite 100.5)
        ''1234abcd56784abc8def0123456789ab'')) = [Acquire, Mutate, Release]"
    by (simp add: Database_create_account_def Database_init_def Let_def)
  show ?thesis unfolding e u a c by simp
qed

end
